theory Spec2Isabelle
  imports Complex_Main
begin

section \<open>RSS-to-printer digest script: a shallow embedding of \<open>rss_to_printer.py\<close>\<close>

text \<open>
  The script picks a feed, parses it, lays the entries out on one A4 page with reportlab,
  sends the file to \<open>lpr\<close> and deletes it, every seven minutes. The functions of the
  script are embedded below in the order of the source. Everything the script calls but
  does not define (feedparser, reportlab's paragraph parser and document builder,
  \<open>subprocess.run\<close>, \<open>os.remove\<close>, the clock, the random generator) is an oracle of
  the record \<open>world\<close>:
  the script's own control flow is modelled in full, the libraries' answers are arbitrary.
\<close>

subsection \<open>Exceptions, outcomes of external calls, and traces\<close>

text \<open>
  Every handler of the script is \<open>except Exception\<close>. It catches the subclasses of
  \<open>Exception\<close> (carried here with their message, the text \<open>str(e)\<close> prints) and lets a
  \<open>KeyboardInterrupt\<close>, which derives from \<open>BaseException\<close> only, pass.
\<close>

datatype exn = Exception string | KeyboardInterrupt

datatype 'a outcome = Returned 'a | Raised exn

datatype style = title_style | date_style | summary_style | styles_Normal

datatype mode = Error_mode | Overflow | Shrink | Truncate

datatype flowable =
    Paragraph string style
  | Spacer real real
  | KeepInFrame real real "flowable list" nat mode

text \<open>\<open>SimpleDocTemplate(filename, pagesize, leftMargin, rightMargin, topMargin, bottomMargin)\<close>\<close>

datatype doc = SimpleDocTemplate string "real \<times> real" real real real real

text \<open>
  What a run does that can be seen from outside: lines written to the two console streams
  and the calls that reach the operating system or the document builder.
\<close>

datatype event =
    Stdout string
  | Stderr string
  | Parse string
  | Build doc "flowable list"
  | Run "string list"
  | Remove string
  | Sleep nat

type_synonym 'a io = "event list \<times> 'a outcome"

definition ret :: "'a \<Rightarrow> 'a io" where
  "ret v = ([], Returned v)"

definition emit :: "event \<Rightarrow> unit io" where
  "emit e = ([e], Returned ())"

text \<open>An external call: the attempt is recorded, the oracle decides how it ends.\<close>

definition call :: "event \<Rightarrow> 'a outcome \<Rightarrow> 'a io" where
  "call e r = ([e], r)"

text \<open>Sequencing: an exception of the first statement skips the rest.\<close>

definition io_bind :: "'a io \<Rightarrow> ('a \<Rightarrow> 'b io) \<Rightarrow> 'b io" where
  "io_bind m f =
     (case m of
        (ev, Raised x) \<Rightarrow> (ev, Raised x)
      | (ev, Returned v) \<Rightarrow> (case f v of (ev', r) \<Rightarrow> (ev @ ev', r)))"

text \<open>\<open>try: m  except Exception as e: handler\<close>\<close>

definition try_except :: "'a io \<Rightarrow> (string \<Rightarrow> 'a io) \<Rightarrow> 'a io" where
  "try_except m handler =
     (case m of
        (ev, Raised (Exception e)) \<Rightarrow> (case handler e of (ev', r) \<Rightarrow> (ev @ ev', r))
      | (ev, Raised KeyboardInterrupt) \<Rightarrow> (ev, Raised KeyboardInterrupt)
      | (ev, Returned v) \<Rightarrow> (ev, Returned v))"

subsection \<open>Data of the script\<close>

text \<open>A raw feed entry is a dictionary; the script reads it with \<open>entry.get(key, default)\<close>.\<close>

type_synonym raw_entry = "string \<rightharpoonup> string"

definition dict_get :: "('k \<rightharpoonup> 'v) \<Rightarrow> 'k \<Rightarrow> 'v \<Rightarrow> 'v" where
  "dict_get d k dflt = (case d k of None \<Rightarrow> dflt | Some v \<Rightarrow> v)"

text \<open>
  The result of \<open>feedparser.parse\<close>: the \<open>bozo\<close> flag, the text of \<open>bozo_exception\<close>, and
  the value under the key \<open>entries\<close> (\<open>None\<close> when the key is absent). The dictionary
  always holds the key \<open>bozo\<close>, so it is never empty and \<open>not feed\<close> is false for it.
\<close>

record feed =
  bozo :: bool
  bozo_exception :: string
  feed_entries :: "raw_entry list option"

text \<open>The dictionaries built at lines 67--71 and 160--170 hold exactly these three keys.\<close>

record entry =
  title :: string
  published :: string
  summary :: string

record world =
  random_index :: nat
  datetime_now :: string
  pagesizes_A4 :: "real \<times> real"
  feedparser_parse :: "string \<Rightarrow> feed outcome"
  paragraph_parse :: "string \<Rightarrow> style \<Rightarrow> unit outcome"
  doc_build :: "doc \<Rightarrow> flowable list \<Rightarrow> unit outcome"
  subprocess_run :: "string list \<Rightarrow> unit outcome"
  os_remove :: "string \<Rightarrow> unit outcome"
  time_sleep :: "nat \<Rightarrow> unit outcome"

definition FEED_SOURCES :: "(string \<times> string) list" where
  "FEED_SOURCES =
     [(''CNN Top Stories'', ''http://rss.cnn.com/rss/cnn_topstories.rss''),
      (''Guardian World'', ''https://www.theguardian.com/world/rss''),
      (''NOAA Climate Highlights'', ''https://www.climate.gov/feeds/news-features/highlights.rss''),
      (''Civil Georgia'', ''https://civil.ge/feed''),
      (''Fox News World'', ''https://moxie.foxnews.com/google-publisher/world.xml''),
      (''Ars Technica'', ''https://feeds.arstechnica.com/arstechnica/technology-lab'')]"

definition PRINTER_NAME :: string where
  "PRINTER_NAME = ''TS9500''"

definition INTERVAL_MINUTES :: nat where
  "INTERVAL_MINUTES = 7"

definition KEEP_PDF :: bool where
  "KEEP_PDF = False"

subsection \<open>\<open>html.escape\<close>\<close>

text \<open>
  \<open>s.replace(old, new)\<close> for a one-character \<open>old\<close>: every occurrence is replaced, left
  to right.
\<close>

definition str_replace :: "char \<Rightarrow> string \<Rightarrow> string \<Rightarrow> string" where
  "str_replace old new s = concat (map (\<lambda>c. if c = old then new else [c]) s)"

text \<open>
  \<open>html.escape(s)\<close> of the standard library, with its default \<open>quote=True\<close>: five
  replacements in sequence, the ampersand first. \<open>CHR 0x22\<close> is the double quote and
  \<open>CHR 0x27\<close> the apostrophe.
\<close>

definition html_escape :: "string \<Rightarrow> string" where
  "html_escape s0 =
     (let s1 = str_replace (CHR ''&'') ''&amp;'' s0;
          s2 = str_replace (CHR ''<'') ''&lt;'' s1;
          s3 = str_replace (CHR ''>'') ''&gt;'' s2;
          s4 = str_replace (CHR 0x22) ''&quot;'' s3;
          s5 = str_replace (CHR 0x27) ''&#x27;'' s4
      in s5)"

subsection \<open>\<open>fetch_feed\<close> (lines 46--55)\<close>

definition fetch_feed :: "world \<Rightarrow> string \<Rightarrow> feed option io" where
  "fetch_feed w url =
     try_except
       (io_bind (call (Parse url) (feedparser_parse w url)) (\<lambda>fd.
          if bozo fd
          then io_bind (emit (Stderr (''Error parsing feed: '' @ bozo_exception fd)))
                 (\<lambda>_. ret None)
          else ret (Some fd)))
       (\<lambda>e. io_bind (emit (Stderr (''Exception fetching feed: '' @ e))) (\<lambda>_. ret None))"

subsection \<open>\<open>format_entries\<close> (lines 57--72)\<close>

text \<open>The body of the \<open>for\<close> loop: one dictionary appended to \<open>result\<close>.\<close>

definition format_entry :: "raw_entry \<Rightarrow> entry" where
  "format_entry e =
     \<lparr>title = html_escape (dict_get e ''title'' ''No title''),
      published = html_escape (dict_get e ''published'' ''No date''),
      summary = dict_get e ''summary'' []\<rparr>"

definition format_entries :: "feed option \<Rightarrow> entry list" where
  "format_entries fd =
     (case fd of
        None \<Rightarrow> []
      | Some f \<Rightarrow>
          (case feed_entries f of
             None \<Rightarrow> []
           | Some es \<Rightarrow> foldl (\<lambda>result e. result @ [format_entry e]) [] es))"

subsection \<open>\<open>print_to_printer\<close> (lines 74--82)\<close>

text \<open>
  \<open>subprocess.run(..., check=True)\<close> raises \<open>CalledProcessError\<close> when \<open>lpr\<close> exits
  with a non-zero status and \<open>OSError\<close> when it cannot be started; both are subclasses of
  \<open>Exception\<close>. The function has no \<open>return\<close> statement: its value is \<open>None\<close> on every
  path, here \<open>()\<close>.
\<close>

definition print_to_printer :: "world \<Rightarrow> string \<Rightarrow> string \<Rightarrow> unit io" where
  "print_to_printer w pdf_path printer_name =
     try_except
       (io_bind
          (call (Run [''lpr'', ''-P'', printer_name, pdf_path])
             (subprocess_run w [''lpr'', ''-P'', printer_name, pdf_path]))
          (\<lambda>_. emit (Stdout (''Printed PDF '' @ pdf_path @ '' to '' @ printer_name
                               @ '' successfully.''))))
       (\<lambda>e. emit (Stderr (''Printing failed: '' @ e)))"

subsection \<open>\<open>save_as_pdf\<close> (lines 84--149)\<close>

text \<open>
  \<open>Paragraph(text, style)\<close> parses its text when the object is made and raises
  \<open>ValueError\<close> on markup that reportlab rejects, an unclosed tag for one. The oracle
  \<open>paragraph_parse\<close> says how the parse of a text ends; when it returns, the object exists.
\<close>

definition new_Paragraph :: "world \<Rightarrow> string \<Rightarrow> style \<Rightarrow> flowable io" where
  "new_Paragraph w t st = io_bind ([], paragraph_parse w t st) (\<lambda>_. ret (Paragraph t st))"

text \<open>Lines 128--131: the body of the loop, three paragraphs and a spacer appended.\<close>

definition add_entry :: "world \<Rightarrow> flowable list \<Rightarrow> entry \<Rightarrow> flowable list io" where
  "add_entry w item_list e =
     io_bind (new_Paragraph w (''<b>'' @ title e @ ''</b>'') title_style) (\<lambda>p1.
     io_bind (new_Paragraph w (published e) date_style) (\<lambda>p2.
     io_bind (new_Paragraph w (summary e) summary_style) (\<lambda>p3.
     ret (item_list @ [p1, p2, p3, Spacer 1 6]))))"

text \<open>Line 127: the loop; a paragraph that raises ends it at once.\<close>

fun for_entries :: "world \<Rightarrow> flowable list \<Rightarrow> entry list \<Rightarrow> flowable list io" where
  "for_entries w item_list [] = ret item_list"
| "for_entries w item_list (e # es) =
     io_bind (add_entry w item_list e) (\<lambda>item_list'. for_entries w item_list' es)"

text \<open>
  Lines 126--133: the loop, then the placeholder for an empty list. The text of the
  placeholder is a constant without markup, which the parser has nothing to reject in.
\<close>

definition item_list_of :: "world \<Rightarrow> entry list \<Rightarrow> flowable list io" where
  "item_list_of w es =
     io_bind (for_entries w [] es) (\<lambda>item_list.
       if item_list = []
       then ret (item_list @ [Paragraph ''No entries found.'' styles_Normal])
       else ret item_list)"

text \<open>
  The time stamp and the file name are computed before the \<open>try\<close>; the paragraphs, the
  frame and the call of \<open>doc.build\<close> lie inside it. The three paragraph styles built at
  lines 89--117 are constants of the script.
\<close>

definition save_as_pdf :: "world \<Rightarrow> entry list \<Rightarrow> string \<Rightarrow> string option io" where
  "save_as_pdf w es directory =
     (let timestamp = datetime_now w;
          filename = directory @ ''/rss_printout_'' @ timestamp @ ''.pdf''
      in try_except
           (let (width, height) = pagesizes_A4 w;
                leftMargin = 18; rightMargin = 18; topMargin = 18; bottomMargin = 18;
                available_width = width - leftMargin - rightMargin;
                available_height = height - topMargin - bottomMargin
            in io_bind (item_list_of w es) (\<lambda>item_list.
               let elements =
                     [KeepInFrame available_width available_height item_list 1 Truncate];
                   d = SimpleDocTemplate filename (pagesizes_A4 w)
                         leftMargin rightMargin topMargin bottomMargin
               in io_bind (call (Build d elements) (doc_build w d elements)) (\<lambda>_.
                  io_bind (emit (Stdout (''Saved PDF: '' @ filename))) (\<lambda>_.
                  ret (Some filename)))))
           (\<lambda>e. io_bind (emit (Stderr (''Failed to save PDF: '' @ e))) (\<lambda>_. ret None)))"

subsection \<open>\<open>main\<close> (lines 151--182)\<close>

text \<open>
  \<open>random.choice\<close> returns the element at a random index below the length of the list.
\<close>

definition random_choice :: "world \<Rightarrow> 'a list \<Rightarrow> 'a" where
  "random_choice w xs = xs ! (random_index w mod length xs)"

text \<open>Lines 159--170: the banner entry is put in front in both branches.\<close>

definition banner :: "string \<Rightarrow> entry" where
  "banner chosen_fullname =
     \<lparr>title = ''Feed Source: '' @ chosen_fullname, published = [], summary = []\<rparr>"

definition with_banner :: "string \<Rightarrow> entry list \<Rightarrow> entry list" where
  "with_banner chosen_fullname es =
     (if es \<noteq> [] then [banner chosen_fullname] @ es else [banner chosen_fullname])"

text \<open>The decimal text of a number, as an f-string prints it.\<close>

fun str_nat :: "nat \<Rightarrow> string" where
  "str_nat n =
     (if n < 10 then [char_of (48 + n)]
      else str_nat (n div 10) @ [char_of (48 + n mod 10)])"

declare str_nat.simps [simp del]

text \<open>Lines 173--180: print and delete, only when \<open>save_as_pdf\<close> gave a path.\<close>

definition print_and_cleanup :: "world \<Rightarrow> string option \<Rightarrow> unit io" where
  "print_and_cleanup w pdf_path =
     (case pdf_path of
        None \<Rightarrow> ret ()
      | Some p \<Rightarrow>
          if p = [] then ret ()
          else io_bind (print_to_printer w p PRINTER_NAME) (\<lambda>_.
                 if \<not> KEEP_PDF
                 then try_except
                        (io_bind (call (Remove p) (os_remove w p))
                           (\<lambda>_. emit (Stdout (''Deleted PDF: '' @ p))))
                        (\<lambda>e. emit (Stderr (''Failed to delete PDF: '' @ e)))
                 else ret ()))"

text \<open>One pass through the body of \<open>while True\<close>.\<close>

definition main_body :: "world \<Rightarrow> unit io" where
  "main_body w =
     (let (chosen_fullname, chosen_feed_url) = random_choice w FEED_SOURCES in
      io_bind (emit (Stdout (''Fetching from: '' @ chosen_feed_url
                             @ '' ('' @ chosen_fullname @ '')''))) (\<lambda>_.
      io_bind (fetch_feed w chosen_feed_url) (\<lambda>fd.
      io_bind (save_as_pdf w (with_banner chosen_fullname (format_entries fd)) ''.'')
        (\<lambda>pdf_path.
      io_bind (print_and_cleanup w pdf_path) (\<lambda>_.
      io_bind (emit (Stdout (''Next run in '' @ str_nat INTERVAL_MINUTES @ '' minutes...'')))
        (\<lambda>_.
      call (Sleep (INTERVAL_MINUTES * 60)) (time_sleep w (INTERVAL_MINUTES * 60))))))))"

text \<open>
  The loop never returns by itself. \<open>main_loop ws i n\<close> watches \<open>n\<close> passes, the \<open>k\<close>-th
  of them in the world \<open>ws k\<close>, starting at pass \<open>i\<close>: the result is \<open>Some x\<close> when the
  exception \<open>x\<close> left the loop during these passes, and \<open>None\<close> when the loop is still
  running after them.
\<close>

fun main_loop :: "(nat \<Rightarrow> world) \<Rightarrow> nat \<Rightarrow> nat \<Rightarrow> event list \<times> exn option" where
  "main_loop ws i 0 = ([], None)"
| "main_loop ws i (Suc n) =
     (case main_body (ws i) of
        (ev, Raised x) \<Rightarrow> (ev, Some x)
      | (ev, Returned _) \<Rightarrow> (case main_loop ws (Suc i) n of (ev', r) \<Rightarrow> (ev @ ev', r)))"

definition main :: "(nat \<Rightarrow> world) \<Rightarrow> nat \<Rightarrow> event list \<times> exn option" where
  "main ws n =
     (case main_loop ws 0 n of
        (ev, r) \<Rightarrow> (Stdout ''Starting RSS to printer script. Press Ctrl+C to stop.'' # ev, r))"

section \<open>Notions the properties are stated with\<close>

subsection \<open>Escaped text\<close>

text \<open>
  What \<open>html.escape\<close> does to one character, and the text it never leaves behind: a
  string is free of raw markup when it holds none of \<open><\<close>, \<open>>\<close>, the two quotes, and
  every ampersand in it starts one of the five entities.
\<close>

definition escape_char :: "char \<Rightarrow> string" where
  "escape_char c =
     (if c = CHR ''&'' then ''&amp;''
      else if c = CHR ''<'' then ''&lt;''
      else if c = CHR ''>'' then ''&gt;''
      else if c = CHR 0x22 then ''&quot;''
      else if c = CHR 0x27 then ''&#x27;''
      else [c])"

definition entity_names :: "string list" where
  "entity_names = [''amp;'', ''lt;'', ''gt;'', ''quot;'', ''#x27;'']"

fun no_raw_markup :: "string \<Rightarrow> bool" where
  "no_raw_markup [] = True"
| "no_raw_markup (c # cs) =
     (if c = CHR ''<'' \<or> c = CHR ''>'' \<or> c = CHR 0x22 \<or> c = CHR 0x27 then False
      else if c = CHR ''&''
      then list_ex (\<lambda>n. take (length n) cs = n) entity_names \<and> no_raw_markup cs
      else no_raw_markup cs)"

subsection \<open>What \<open>save_as_pdf\<close> and \<open>main\<close> hand on\<close>

text \<open>
  The four flowables an entry contributes once its three texts are parsed, and the
  entries whose texts the parser accepts; the file name, the document template and the
  element list that \<open>save_as_pdf\<close> gives to \<open>doc.build\<close>; the feed and the entry list of
  one pass of \<open>main\<close>; worlds in which no external call is interrupted from the keyboard,
  so that whatever a library raises is an error, and in which the sleep between two
  passes runs to its end.
\<close>

definition entry_items :: "entry \<Rightarrow> flowable list" where
  "entry_items e =
     [Paragraph (''<b>'' @ title e @ ''</b>'') title_style,
      Paragraph (published e) date_style,
      Paragraph (summary e) summary_style,
      Spacer 1 6]"

definition accepts :: "world \<Rightarrow> entry \<Rightarrow> bool" where
  "accepts w e \<longleftrightarrow>
     paragraph_parse w (''<b>'' @ title e @ ''</b>'') title_style = Returned () \<and>
     paragraph_parse w (published e) date_style = Returned () \<and>
     paragraph_parse w (summary e) summary_style = Returned ()"

definition pdf_filename :: "world \<Rightarrow> string \<Rightarrow> string" where
  "pdf_filename w directory = directory @ ''/rss_printout_'' @ datetime_now w @ ''.pdf''"

definition built_doc :: "world \<Rightarrow> string \<Rightarrow> doc" where
  "built_doc w directory =
     SimpleDocTemplate (pdf_filename w directory) (pagesizes_A4 w) 18 18 18 18"

definition built_elements :: "world \<Rightarrow> flowable list \<Rightarrow> flowable list" where
  "built_elements w item_list =
     [KeepInFrame (fst (pagesizes_A4 w) - 18 - 18) (snd (pagesizes_A4 w) - 18 - 18)
        item_list 1 Truncate]"

definition cycle_feed :: "world \<Rightarrow> feed option" where
  "cycle_feed w =
     (case snd (fetch_feed w (snd (random_choice w FEED_SOURCES))) of
        Returned fd \<Rightarrow> fd
      | Raised _ \<Rightarrow> None)"

definition cycle_entries :: "world \<Rightarrow> entry list" where
  "cycle_entries w =
     with_banner (fst (random_choice w FEED_SOURCES)) (format_entries (cycle_feed w))"

definition uninterrupted :: "world \<Rightarrow> bool" where
  "uninterrupted w \<longleftrightarrow>
     (\<forall>url. feedparser_parse w url \<noteq> Raised KeyboardInterrupt) \<and>
     (\<forall>t st. paragraph_parse w t st \<noteq> Raised KeyboardInterrupt) \<and>
     (\<forall>d els. doc_build w d els \<noteq> Raised KeyboardInterrupt) \<and>
     (\<forall>argv. subprocess_run w argv \<noteq> Raised KeyboardInterrupt) \<and>
     (\<forall>p. os_remove w p \<noteq> Raised KeyboardInterrupt) \<and>
     (\<forall>n. time_sleep w n = Returned ())"

fun is_Run :: "event \<Rightarrow> bool" where
  "is_Run (Run _) = True"
| "is_Run _ = False"

fun is_Sleep :: "event \<Rightarrow> bool" where
  "is_Sleep (Sleep _) = True"
| "is_Sleep _ = False"

subsection \<open>Sample inputs\<close>

definition sample_feed :: feed where
  "sample_feed =
     \<lparr>bozo = False, bozo_exception = [],
      feed_entries = Some
        [[''title'' \<mapsto> ''A <b> & C'', ''published'' \<mapsto> ''Mon'', ''summary'' \<mapsto> ''<i>S1</i>''],
         Map.empty]\<rparr>"

definition world_ok :: world where
  "world_ok =
     \<lparr>random_index = 1,
      datetime_now = ''20240101_120000'',
      pagesizes_A4 = (210 * 72 / 25.4, 297 * 72 / 25.4),
      feedparser_parse = (\<lambda>_. Returned sample_feed),
      paragraph_parse = (\<lambda>_ _. Returned ()),
      doc_build = (\<lambda>_ _. Returned ()),
      subprocess_run = (\<lambda>_. Returned ()),
      os_remove = (\<lambda>_. Returned ()),
      time_sleep = (\<lambda>_. Returned ())\<rparr>"

definition world_fetch_fails :: world where
  "world_fetch_fails = world_ok\<lparr>feedparser_parse := (\<lambda>_. Raised (Exception ''timed out''))\<rparr>"

definition world_build_fails :: world where
  "world_build_fails = world_ok\<lparr>doc_build := (\<lambda>_ _. Raised (Exception ''Permission denied''))\<rparr>"

definition world_lpr_fails :: world where
  "world_lpr_fails =
     world_ok\<lparr>subprocess_run := (\<lambda>_. Raised (Exception ''lpr returned non-zero exit status 1''))\<rparr>"

text \<open>
  A feed whose summary opens a tag and never closes it, and a world whose parser rejects
  that summary and a banner title with a lone \<open><\<close>.
\<close>

definition bad_feed :: feed where
  "bad_feed =
     \<lparr>bozo = False, bozo_exception = [],
      feed_entries = Some
        [[''title'' \<mapsto> ''T1'', ''published'' \<mapsto> ''D1'', ''summary'' \<mapsto> ''<i>S1'']]\<rparr>"

definition world_bad_markup :: world where
  "world_bad_markup =
     world_ok\<lparr>feedparser_parse := (\<lambda>_. Returned bad_feed),
              paragraph_parse := (\<lambda>t _.
                if t = ''<i>S1'' \<or> t = ''<b>Feed Source: A<B</b>''
                then Raised (Exception ''paragraph text caused exception'')
                else Returned ())\<rparr>"

definition bad_entry :: entry where
  "bad_entry = \<lparr>title = ''T1'', published = ''D1'', summary = ''<i>S1''\<rparr>"

definition world_interrupted :: world where
  "world_interrupted = world_ok\<lparr>time_sleep := (\<lambda>_. Raised KeyboardInterrupt)\<rparr>"

definition sample_entry :: entry where
  "sample_entry = \<lparr>title = ''T1'', published = ''D1'', summary = ''S1''\<rparr>"

section \<open>Properties\<close>

subsection \<open>Escaping\<close>

lemma str_replace_Nil: "str_replace old new [] = []"
  by (simp add: str_replace_def)

lemma str_replace_Cons:
  "str_replace old new (c # s) = (if c = old then new else [c]) @ str_replace old new s"
  by (simp add: str_replace_def)

lemma str_replace_append:
  "str_replace old new (a @ b) = str_replace old new a @ str_replace old new b"
  by (simp add: str_replace_def)

lemma html_escape_Nil: "html_escape [] = []"
  by (simp add: html_escape_def str_replace_Nil)

lemma html_escape_Cons: "html_escape (c # s) = escape_char c @ html_escape s"
  by (simp add: html_escape_def escape_char_def str_replace_Cons str_replace_append str_replace_Nil Let_def)

lemma html_escape_concat: "html_escape s = concat (map escape_char s)"
  by (induction s) (simp_all add: html_escape_Nil html_escape_Cons)

lemma no_raw_markup_escape_char:
  "no_raw_markup t \<Longrightarrow> no_raw_markup (escape_char c @ t)"
  by (simp add: escape_char_def entity_names_def)

lemma no_raw_markup_html_escape: "no_raw_markup (html_escape s)"
  by (induction s) (simp_all add: html_escape_Nil html_escape_Cons no_raw_markup_escape_char)

subsection \<open>Sequencing and handlers\<close>

lemma fst_io_bind:
  "fst (io_bind m f) = fst m @ (case snd m of Returned v \<Rightarrow> fst (f v) | Raised x \<Rightarrow> [])"
  by (cases m) (auto simp: io_bind_def split: outcome.splits prod.splits)

lemma snd_io_bind:
  "snd (io_bind m f) = (case snd m of Returned v \<Rightarrow> snd (f v) | Raised x \<Rightarrow> Raised x)"
  by (cases m) (auto simp: io_bind_def split: outcome.splits prod.splits)

lemma fst_try_except:
  "fst (try_except m h) =
     fst m @ (case snd m of Raised (Exception e) \<Rightarrow> fst (h e) | _ \<Rightarrow> [])"
  by (cases m) (auto simp: try_except_def split: outcome.splits prod.splits exn.splits)

lemma snd_try_except:
  "snd (try_except m h) =
     (case snd m of Raised (Exception e) \<Rightarrow> snd (h e) | r \<Rightarrow> r)"
  by (cases m) (auto simp: try_except_def split: outcome.splits prod.splits exn.splits)

lemma io_simps:
  "fst (ret v) = []" "snd (ret v) = Returned v"
  "fst (emit e) = [e]" "snd (emit e) = Returned ()"
  "fst (call e r) = [e]" "snd (call e r) = r"
  by (simp_all add: ret_def emit_def call_def)


subsection \<open>The layout items\<close>

lemma fst_new_Paragraph: "fst (new_Paragraph w t st) = []"
  by (simp add: new_Paragraph_def fst_io_bind io_simps split: outcome.splits)

lemma snd_new_Paragraph:
  "snd (new_Paragraph w t st) =
     (case paragraph_parse w t st of
        Returned _ \<Rightarrow> Returned (Paragraph t st)
      | Raised x \<Rightarrow> Raised x)"
  by (simp add: new_Paragraph_def snd_io_bind io_simps split: outcome.splits)

lemma io_bind_no_interrupt:
  "snd m \<noteq> Raised KeyboardInterrupt \<Longrightarrow>
   (\<And>v. snd (f v) \<noteq> Raised KeyboardInterrupt) \<Longrightarrow>
   snd (io_bind m f) \<noteq> Raised KeyboardInterrupt"
  by (cases "snd m") (simp_all add: snd_io_bind)

lemma new_Paragraph_no_interrupt:
  "paragraph_parse w t st \<noteq> Raised KeyboardInterrupt \<Longrightarrow>
   snd (new_Paragraph w t st) \<noteq> Raised KeyboardInterrupt"
  by (cases "paragraph_parse w t st") (simp_all add: snd_new_Paragraph)

lemma fst_add_entry: "fst (add_entry w item_list e) = []"
  by (simp add: add_entry_def fst_io_bind snd_io_bind fst_new_Paragraph io_simps
      split: outcome.splits)

lemma add_entry_accepts:
  "accepts w e \<Longrightarrow> add_entry w item_list e = ([], Returned (item_list @ entry_items e))"
  by (simp add: prod_eq_iff fst_add_entry)
     (simp add: add_entry_def accepts_def entry_items_def snd_io_bind snd_new_Paragraph io_simps)

lemma add_entry_first_raises:
  "paragraph_parse w (''<b>'' @ title e @ ''</b>'') title_style = Raised x \<Longrightarrow>
   snd (add_entry w item_list e) = Raised x"
  by (simp add: add_entry_def snd_io_bind snd_new_Paragraph)

lemma add_entry_no_interrupt:
  "(\<forall>t st. paragraph_parse w t st \<noteq> Raised KeyboardInterrupt) \<Longrightarrow>
   snd (add_entry w item_list e) \<noteq> Raised KeyboardInterrupt"
  unfolding add_entry_def
  by (intro io_bind_no_interrupt new_Paragraph_no_interrupt) (simp_all add: io_simps)

lemma fst_for_entries: "fst (for_entries w item_list es) = []"
  by (induction es arbitrary: item_list)
     (simp_all add: fst_io_bind fst_add_entry io_simps split: outcome.splits)

lemma for_entries_accepts:
  "list_all (accepts w) es \<Longrightarrow>
   for_entries w item_list es = ([], Returned (item_list @ concat (map entry_items es)))"
proof (induction es arbitrary: item_list)
  case Nil
  show ?case by (simp add: ret_def)
next
  case (Cons e es)
  from Cons.prems have a: "accepts w e" and r: "list_all (accepts w) es" by simp_all
  show ?case
    by (simp add: add_entry_accepts [OF a] Cons.IH [OF r] io_bind_def)
qed

lemma for_entries_first_raises:
  "paragraph_parse w (''<b>'' @ title e @ ''</b>'') title_style = Raised x \<Longrightarrow>
   snd (for_entries w item_list (e # es)) = Raised x"
  by (simp add: snd_io_bind add_entry_first_raises)

lemma for_entries_no_interrupt:
  "(\<forall>t st. paragraph_parse w t st \<noteq> Raised KeyboardInterrupt) \<Longrightarrow>
   snd (for_entries w item_list es) \<noteq> Raised KeyboardInterrupt"
proof (induction es arbitrary: item_list)
  case Nil
  show ?case by (simp add: io_simps)
next
  case (Cons e es)
  have "snd (io_bind (add_entry w item_list e) (\<lambda>item_list'. for_entries w item_list' es))
          \<noteq> Raised KeyboardInterrupt"
    by (intro io_bind_no_interrupt add_entry_no_interrupt [OF Cons.prems]
        Cons.IH [OF Cons.prems])
  then show ?case by simp
qed

lemma fst_item_list_of: "fst (item_list_of w es) = []"
  by (simp add: item_list_of_def fst_io_bind fst_for_entries io_simps split: outcome.splits)

lemma item_list_of_Nil:
  "item_list_of w [] = ([], Returned [Paragraph ''No entries found.'' styles_Normal])"
  by (simp add: item_list_of_def io_bind_def ret_def)

lemma entry_items_not_Nil: "entry_items e \<noteq> []"
  by (simp add: entry_items_def)

lemma item_list_of_accepts:
  "es \<noteq> [] \<Longrightarrow> list_all (accepts w) es \<Longrightarrow>
   item_list_of w es = ([], Returned (concat (map entry_items es)))"
  by (cases es)
     (simp_all add: item_list_of_def for_entries_accepts io_bind_def ret_def entry_items_not_Nil
       del: for_entries.simps)

lemma item_list_of_first_raises:
  "paragraph_parse w (''<b>'' @ title e @ ''</b>'') title_style = Raised x \<Longrightarrow>
   item_list_of w (e # es) = ([], Raised x)"
proof -
  assume h: "paragraph_parse w (''<b>'' @ title e @ ''</b>'') title_style = Raised x"
  have s: "snd (for_entries w [] (e # es)) = Raised x"
    by (rule for_entries_first_raises [OF h])
  have "snd (item_list_of w (e # es)) = Raised x"
    by (simp add: item_list_of_def snd_io_bind s del: for_entries.simps)
  then show ?thesis
    by (simp add: prod_eq_iff fst_item_list_of)
qed

lemma item_list_of_no_interrupt:
  "(\<forall>t st. paragraph_parse w t st \<noteq> Raised KeyboardInterrupt) \<Longrightarrow>
   snd (item_list_of w es) \<noteq> Raised KeyboardInterrupt"
  unfolding item_list_of_def
  by (intro io_bind_no_interrupt for_entries_no_interrupt) (simp_all add: io_simps)

lemma save_as_pdf_eq:
  "save_as_pdf w es directory =
     try_except
       (io_bind (item_list_of w es) (\<lambda>item_list.
        io_bind (call (Build (built_doc w directory) (built_elements w item_list))
                   (doc_build w (built_doc w directory) (built_elements w item_list))) (\<lambda>_.
        io_bind (emit (Stdout (''Saved PDF: '' @ pdf_filename w directory))) (\<lambda>_.
        ret (Some (pdf_filename w directory))))))
       (\<lambda>e. io_bind (emit (Stderr (''Failed to save PDF: '' @ e))) (\<lambda>_. ret None))"
  by (simp add: save_as_pdf_def built_doc_def built_elements_def pdf_filename_def
      Let_def case_prod_beta)

lemma fst_save_as_pdf:
  "fst (save_as_pdf w es directory) =
     (case snd (item_list_of w es) of
        Returned item_list \<Rightarrow>
          Build (built_doc w directory) (built_elements w item_list) #
          (case doc_build w (built_doc w directory) (built_elements w item_list) of
             Returned _ \<Rightarrow> [Stdout (''Saved PDF: '' @ pdf_filename w directory)]
           | Raised (Exception e) \<Rightarrow> [Stderr (''Failed to save PDF: '' @ e)]
           | Raised KeyboardInterrupt \<Rightarrow> [])
      | Raised (Exception e) \<Rightarrow> [Stderr (''Failed to save PDF: '' @ e)]
      | Raised KeyboardInterrupt \<Rightarrow> [])"
  by (simp add: save_as_pdf_eq fst_try_except fst_io_bind snd_io_bind io_simps fst_item_list_of
      split: outcome.splits exn.splits)

lemma snd_save_as_pdf:
  "snd (save_as_pdf w es directory) =
     (case snd (item_list_of w es) of
        Returned item_list \<Rightarrow>
          (case doc_build w (built_doc w directory) (built_elements w item_list) of
             Returned _ \<Rightarrow> Returned (Some (pdf_filename w directory))
           | Raised (Exception e) \<Rightarrow> Returned None
           | Raised KeyboardInterrupt \<Rightarrow> Raised KeyboardInterrupt)
      | Raised (Exception e) \<Rightarrow> Returned None
      | Raised KeyboardInterrupt \<Rightarrow> Raised KeyboardInterrupt)"
  by (simp add: save_as_pdf_eq snd_try_except fst_io_bind snd_io_bind io_simps
      split: outcome.splits exn.splits)

lemma length_entry_items: "length (entry_items e) = 4"
  by (simp add: entry_items_def)

lemma concat_entry_items_nth:
  "i < length es \<Longrightarrow> k < 4 \<Longrightarrow>
   concat (map entry_items es) ! (4 * i + k) = entry_items (es ! i) ! k"
proof (induction es arbitrary: i)
  case Nil
  then show ?case by simp
next
  case (Cons e es)
  show ?case
  proof (cases i)
    case 0
    with Cons.prems show ?thesis by (simp add: nth_append length_entry_items)
  next
    case (Suc j)
    with Cons.prems have "j < length es" by simp
    from Cons.IH [OF this Cons.prems(2)] Suc show ?thesis
      by (simp add: nth_append length_entry_items)
  qed
qed

lemma length_concat_entry_items: "length (concat (map entry_items es)) = 4 * length es"
  by (induction es) (simp_all add: length_entry_items)

text \<open>
  Claim C4, as stated, fails: a non-empty entry list does not always give four items per
  entry. For an entry whose summary opens a tag and never closes it, the third
  \<open>Paragraph(...)\<close> of the loop raises; the loop ends there with no item list, no
  document is built, and \<open>save_as_pdf\<close> returns \<open>None\<close> after one line on stderr.
\<close>

theorem four_items_rejected_markup:
  "[bad_entry] \<noteq> [] \<and>
   item_list_of world_bad_markup [bad_entry] =
     ([], Raised (Exception ''paragraph text caused exception'')) \<and>
   save_as_pdf world_bad_markup [bad_entry] ''.'' =
     ([Stderr ''Failed to save PDF: paragraph text caused exception''], Returned None)"
proof -
  have a: "item_list_of world_bad_markup [bad_entry] =
     ([], Raised (Exception ''paragraph text caused exception''))"
    by (simp add: item_list_of_def add_entry_def new_Paragraph_def io_bind_def ret_def
        world_bad_markup_def world_ok_def bad_entry_def)
  have b: "save_as_pdf world_bad_markup [bad_entry] ''.'' =
     ([Stderr ''Failed to save PDF: paragraph text caused exception''], Returned None)"
    by (simp add: prod_eq_iff fst_save_as_pdf snd_save_as_pdf a)
  from a b show ?thesis by simp
qed

text \<open>
  Claim C4, amended. For a non-empty entry list all of whose texts the paragraph parser
  accepts, the item list is the concatenation, in input order, of four items per entry:
  the title in bold markup with the title style, the published date with the date style,
  the summary with the summary style, and the spacer \<open>Spacer(1, 6)\<close>. Entry \<open>i\<close> fills
  the positions \<open>4i\<close> to \<open>4i + 3\<close>, nothing is dropped, merged or moved, and this list
  is the content of the single frame that \<open>save_as_pdf\<close> gives to the document builder.
\<close>

theorem four_items_per_entry:
  "es \<noteq> [] \<Longrightarrow> list_all (accepts w) es \<Longrightarrow>
   (\<exists>item_list.
      item_list_of w es = ([], Returned item_list) \<and>
      item_list = concat (map entry_items es) \<and>
      length item_list = 4 * length es \<and>
      (\<forall>i < length es.
         item_list ! (4 * i) = Paragraph (''<b>'' @ title (es ! i) @ ''</b>'') title_style \<and>
         item_list ! (4 * i + 1) = Paragraph (published (es ! i)) date_style \<and>
         item_list ! (4 * i + 2) = Paragraph (summary (es ! i)) summary_style \<and>
         item_list ! (4 * i + 3) = Spacer 1 6) \<and>
      hd (fst (save_as_pdf w es directory)) =
        Build (built_doc w directory)
          [KeepInFrame (fst (pagesizes_A4 w) - 18 - 18) (snd (pagesizes_A4 w) - 18 - 18)
             item_list 1 Truncate])"
proof -
  assume ne: "es \<noteq> []" and acc: "list_all (accepts w) es"
  let ?items = "concat (map entry_items es)"
  have eq: "item_list_of w es = ([], Returned ?items)"
    by (rule item_list_of_accepts [OF ne acc])
  have len: "length ?items = 4 * length es"
    by (rule length_concat_entry_items)
  have nth: "?items ! (4 * i + k) = entry_items (es ! i) ! k"
    if "i < length es" "k < 4" for i k
    using that by (rule concat_entry_items_nth)
  have items: "?items ! (4 * i) = Paragraph (''<b>'' @ title (es ! i) @ ''</b>'') title_style \<and>
      ?items ! (4 * i + 1) = Paragraph (published (es ! i)) date_style \<and>
      ?items ! (4 * i + 2) = Paragraph (summary (es ! i)) summary_style \<and>
      ?items ! (4 * i + 3) = Spacer 1 6" if "i < length es" for i
    using nth [OF that, of 0] nth [OF that, of 1] nth [OF that, of 2] nth [OF that, of 3]
    by (simp add: entry_items_def)
  have bld: "hd (fst (save_as_pdf w es directory)) =
     Build (built_doc w directory)
       [KeepInFrame (fst (pagesizes_A4 w) - 18 - 18) (snd (pagesizes_A4 w) - 18 - 18)
          ?items 1 Truncate]"
    by (simp add: fst_save_as_pdf eq built_elements_def)
  from eq len items bld show ?thesis by blast
qed

theorem four_items_per_entry_witness:
  "[sample_entry, sample_entry] \<noteq> [] \<and>
   list_all (accepts world_ok) [sample_entry, sample_entry] \<and>
   item_list_of world_ok [sample_entry, sample_entry] =
     ([], Returned
        [Paragraph ''<b>T1</b>'' title_style, Paragraph ''D1'' date_style,
         Paragraph ''S1'' summary_style, Spacer 1 6,
         Paragraph ''<b>T1</b>'' title_style, Paragraph ''D1'' date_style,
         Paragraph ''S1'' summary_style, Spacer 1 6])"
proof -
  have h1: "[sample_entry, sample_entry] \<noteq> []" by simp
  have h2: "list_all (accepts world_ok) [sample_entry, sample_entry]"
    by (simp add: accepts_def world_ok_def)
  from h2 four_items_per_entry [OF h1 h2, of "''.''"] show ?thesis
    by (auto simp add: entry_items_def sample_entry_def)
qed

text \<open>
  Claim C5. For the empty entry list the item list is the one paragraph
  \<open>No entries found.\<close> in the style \<open>Normal\<close>, and the frame given to the document
  builder holds that paragraph and nothing else.
\<close>

theorem empty_input_placeholder:
  "item_list_of w [] = ([], Returned [Paragraph ''No entries found.'' styles_Normal]) \<and>
   hd (fst (save_as_pdf w [] directory)) =
     Build (built_doc w directory)
       [KeepInFrame (fst (pagesizes_A4 w) - 18 - 18) (snd (pagesizes_A4 w) - 18 - 18)
          [Paragraph ''No entries found.'' styles_Normal] 1 Truncate]"
  by (simp add: fst_save_as_pdf built_elements_def item_list_of_Nil)


subsection \<open>Normalisation\<close>

lemma foldl_append_concat:
  "foldl (\<lambda>acc e. acc @ f e) a xs = a @ concat (map f xs)"
  by (induction xs arbitrary: a) simp_all

lemma format_entries_map:
  "feed_entries f = Some es \<Longrightarrow> format_entries (Some f) = map format_entry es"
  by (simp add: format_entries_def foldl_append_concat [where f = "\<lambda>e. [format_entry e]", simplified])

text \<open>
  Claim C3. For a feed with the entries \<open>es\<close>, \<open>format_entries\<close> returns one record per
  raw entry, at the same position. Its title and its published date are the
  \<open>html.escape\<close> of the raw fields (of \<open>No title\<close> and \<open>No date\<close> when the field is
  absent) and hold no raw markup: none of \<open><\<close>, \<open>>\<close> and the two quotes, and no
  ampersand that does not start an entity. Its summary is the raw summary, unchanged.
\<close>

theorem format_entries_escapes:
  "feed_entries f = Some es \<Longrightarrow>
   length (format_entries (Some f)) = length es \<and>
   (\<forall>i < length es.
      title (format_entries (Some f) ! i) = html_escape (dict_get (es ! i) ''title'' ''No title'') \<and>
      published (format_entries (Some f) ! i) =
        html_escape (dict_get (es ! i) ''published'' ''No date'') \<and>
      no_raw_markup (title (format_entries (Some f) ! i)) \<and>
      no_raw_markup (published (format_entries (Some f) ! i)) \<and>
      summary (format_entries (Some f) ! i) = dict_get (es ! i) ''summary'' [])"
  by (simp add: format_entries_map format_entry_def no_raw_markup_html_escape)

theorem format_entries_escapes_witness:
  "feed_entries sample_feed = Some
     [[''title'' \<mapsto> ''A <b> & C'', ''published'' \<mapsto> ''Mon'', ''summary'' \<mapsto> ''<i>S1</i>''],
      Map.empty] \<and>
   title (format_entries (Some sample_feed) ! 0) = ''A &lt;b&gt; &amp; C'' \<and>
   no_raw_markup (title (format_entries (Some sample_feed) ! 0)) \<and>
   summary (format_entries (Some sample_feed) ! 0) = ''<i>S1</i>'' \<and>
   title (format_entries (Some sample_feed) ! 1) = ''No title''"
proof -
  let ?es = "[[''title'' \<mapsto> ''A <b> & C'', ''published'' \<mapsto> ''Mon'',
               ''summary'' \<mapsto> ''<i>S1</i>''], Map.empty] :: raw_entry list"
  have h: "feed_entries sample_feed = Some ?es"
    by (simp add: sample_feed_def)
  note t = format_entries_escapes [OF h, THEN conjunct2, rule_format]
  from h t [of 0] t [of 1] show ?thesis
    by (simp add: dict_get_def html_escape_concat escape_char_def entity_names_def)
qed

subsection \<open>Fetching\<close>

lemma fst_fetch_feed:
  "fst (fetch_feed w url) =
     Parse url #
     (case feedparser_parse w url of
        Returned fd \<Rightarrow>
          if bozo fd then [Stderr (''Error parsing feed: '' @ bozo_exception fd)] else []
      | Raised (Exception e) \<Rightarrow> [Stderr (''Exception fetching feed: '' @ e)]
      | Raised KeyboardInterrupt \<Rightarrow> [])"
  by (simp add: fetch_feed_def fst_try_except fst_io_bind snd_io_bind io_simps
      split: outcome.splits exn.splits)

lemma snd_fetch_feed:
  "snd (fetch_feed w url) =
     (case feedparser_parse w url of
        Returned fd \<Rightarrow> Returned (if bozo fd then None else Some fd)
      | Raised (Exception e) \<Rightarrow> Returned None
      | Raised KeyboardInterrupt \<Rightarrow> Raised KeyboardInterrupt)"
  by (simp add: fetch_feed_def snd_try_except fst_io_bind snd_io_bind io_simps
      split: outcome.splits exn.splits)

text \<open>
  Claim C7. Whatever error \<open>feedparser.parse\<close> raises, and also when it returns a feed
  with the \<open>bozo\<close> flag set, \<open>fetch_feed\<close> returns \<open>None\<close> after one line on stderr; it
  returns the feed when there is no flag; it raises nothing. \<open>format_entries\<close> turns the
  \<open>None\<close> into the empty list. The hypothesis leaves out the interrupt from the keyboard,
  which is no error of the fetch and which \<open>except Exception\<close> lets pass.
\<close>

theorem fetch_feed_never_raises:
  "feedparser_parse w url \<noteq> Raised KeyboardInterrupt \<Longrightarrow>
   (\<exists>r. snd (fetch_feed w url) = Returned r) \<and>
   (\<forall>e. feedparser_parse w url = Raised (Exception e) \<longrightarrow>
      fetch_feed w url =
        ([Parse url, Stderr (''Exception fetching feed: '' @ e)], Returned None)) \<and>
   (\<forall>fd. feedparser_parse w url = Returned fd \<and> bozo fd \<longrightarrow>
      fetch_feed w url =
        ([Parse url, Stderr (''Error parsing feed: '' @ bozo_exception fd)], Returned None)) \<and>
   (\<forall>fd. feedparser_parse w url = Returned fd \<and> \<not> bozo fd \<longrightarrow>
      fetch_feed w url = ([Parse url], Returned (Some fd))) \<and>
   format_entries None = []"
proof -
  assume ni: "feedparser_parse w url \<noteq> Raised KeyboardInterrupt"
  have a: "\<exists>r. snd (fetch_feed w url) = Returned r"
    using ni by (simp add: snd_fetch_feed split: outcome.splits exn.splits)
  have b: "fetch_feed w url =
        ([Parse url, Stderr (''Exception fetching feed: '' @ e)], Returned None)"
    if "feedparser_parse w url = Raised (Exception e)" for e
    using that by (simp add: prod_eq_iff fst_fetch_feed snd_fetch_feed)
  have c: "fetch_feed w url =
        ([Parse url, Stderr (''Error parsing feed: '' @ bozo_exception fd)], Returned None)"
    if "feedparser_parse w url = Returned fd \<and> bozo fd" for fd
    using that by (simp add: prod_eq_iff fst_fetch_feed snd_fetch_feed)
  have d: "fetch_feed w url = ([Parse url], Returned (Some fd))"
    if "feedparser_parse w url = Returned fd \<and> \<not> bozo fd" for fd
    using that by (simp add: prod_eq_iff fst_fetch_feed snd_fetch_feed)
  have e: "format_entries None = []"
    by (simp add: format_entries_def)
  from a b c d e show ?thesis by blast
qed

theorem fetch_feed_never_raises_witness:
  "feedparser_parse world_fetch_fails ''https://civil.ge/feed'' \<noteq> Raised KeyboardInterrupt \<and>
   fetch_feed world_fetch_fails ''https://civil.ge/feed'' =
     ([Parse ''https://civil.ge/feed'', Stderr ''Exception fetching feed: timed out''],
      Returned None) \<and>
   format_entries None = []"
  using fetch_feed_never_raises [of world_fetch_fails "''https://civil.ge/feed''"]
  by (simp add: world_fetch_fails_def world_ok_def)

subsection \<open>Printing\<close>

lemma fst_print_to_printer:
  "fst (print_to_printer w pdf_path printer_name) =
     Run [''lpr'', ''-P'', printer_name, pdf_path] #
     (case subprocess_run w [''lpr'', ''-P'', printer_name, pdf_path] of
        Returned _ \<Rightarrow>
          [Stdout (''Printed PDF '' @ pdf_path @ '' to '' @ printer_name @ '' successfully.'')]
      | Raised (Exception e) \<Rightarrow> [Stderr (''Printing failed: '' @ e)]
      | Raised KeyboardInterrupt \<Rightarrow> [])"
  by (simp add: print_to_printer_def fst_try_except fst_io_bind snd_io_bind io_simps
      split: outcome.splits exn.splits)

lemma snd_print_to_printer:
  "snd (print_to_printer w pdf_path printer_name) =
     (case subprocess_run w [''lpr'', ''-P'', printer_name, pdf_path] of
        Raised KeyboardInterrupt \<Rightarrow> Raised KeyboardInterrupt
      | _ \<Rightarrow> Returned ())"
  by (simp add: print_to_printer_def snd_try_except fst_io_bind snd_io_bind io_simps
      split: outcome.splits exn.splits)

text \<open>
  Claim C8, as stated, fails: when \<open>lpr\<close> exits with a non-zero status the function
  writes the cause to stderr and returns \<open>None\<close>, the same value as after a successful
  submission. No error value reaches the caller.
\<close>

theorem print_failure_not_returned:
  "print_to_printer world_lpr_fails ''rss.pdf'' ''TS9500'' =
     ([Run [''lpr'', ''-P'', ''TS9500'', ''rss.pdf''],
       Stderr ''Printing failed: lpr returned non-zero exit status 1''],
      Returned ()) \<and>
   snd (print_to_printer world_lpr_fails ''rss.pdf'' ''TS9500'') =
   snd (print_to_printer world_ok ''rss.pdf'' ''TS9500'')"
  by (simp add: prod_eq_iff fst_print_to_printer snd_print_to_printer
      world_lpr_fails_def world_ok_def)

text \<open>
  Claim C8, amended. On a non-zero exit of \<open>lpr\<close> or a failure to start it,
  \<open>print_to_printer\<close> catches the error, writes \<open>Printing failed:\<close> and the cause to
  stderr and returns \<open>None\<close> as it does on success; \<open>lpr\<close> is run exactly once.
\<close>

theorem print_to_printer_logs_failure:
  "subprocess_run w [''lpr'', ''-P'', printer_name, pdf_path] \<noteq> Raised KeyboardInterrupt \<Longrightarrow>
   snd (print_to_printer w pdf_path printer_name) = Returned () \<and>
   filter is_Run (fst (print_to_printer w pdf_path printer_name)) =
     [Run [''lpr'', ''-P'', printer_name, pdf_path]] \<and>
   (\<forall>e. subprocess_run w [''lpr'', ''-P'', printer_name, pdf_path] = Raised (Exception e) \<longrightarrow>
      fst (print_to_printer w pdf_path printer_name) =
        [Run [''lpr'', ''-P'', printer_name, pdf_path], Stderr (''Printing failed: '' @ e)])"
  by (auto simp add: fst_print_to_printer snd_print_to_printer
      split: outcome.splits exn.splits)

theorem print_to_printer_logs_failure_witness:
  "subprocess_run world_lpr_fails [''lpr'', ''-P'', ''TS9500'', ''rss.pdf'']
     \<noteq> Raised KeyboardInterrupt \<and>
   snd (print_to_printer world_lpr_fails ''rss.pdf'' ''TS9500'') = Returned () \<and>
   fst (print_to_printer world_lpr_fails ''rss.pdf'' ''TS9500'') =
     [Run [''lpr'', ''-P'', ''TS9500'', ''rss.pdf''],
      Stderr ''Printing failed: lpr returned non-zero exit status 1'']"
  using print_to_printer_logs_failure [of world_lpr_fails "''TS9500''" "''rss.pdf''"]
  by (simp add: world_lpr_fails_def world_ok_def)


subsection \<open>The banner\<close>

lemma with_banner_Cons: "with_banner name es = banner name # es"
  by (simp add: with_banner_def)

lemma no_raw_markup_banner_title:
  "no_raw_markup (''Feed Source: '' @ name) = no_raw_markup name"
  by simp

lemma format_entries_no_raw_markup:
  "e \<in> set (format_entries fd) \<Longrightarrow> no_raw_markup (title e) \<and> no_raw_markup (published e)"
proof (cases fd)
  case None
  assume "e \<in> set (format_entries fd)"
  with None show ?thesis by (simp add: format_entries_def)
next
  case (Some f)
  assume mem: "e \<in> set (format_entries fd)"
  show ?thesis
  proof (cases "feed_entries f")
    case None
    with Some mem show ?thesis by (simp add: format_entries_def)
  next
    case (Some es)
    with \<open>fd = Some f\<close> mem obtain r where "e = format_entry r"
      by (auto simp add: format_entries_map)
    then show ?thesis
      by (simp add: format_entry_def no_raw_markup_html_escape)
  qed
qed

lemma banner_title_text:
  "''<b>'' @ title (banner name) @ ''</b>'' = ''<b>Feed Source: '' @ name @ ''</b>''"
  by (simp add: banner_def)

text \<open>
  Claim C10. The title of the banner entry is the text \<open>Feed Source: \<close> followed by the
  display name as it is, without \<open>html.escape\<close>, and it is given to the paragraph parser
  between the bold tags in that form: when the parser rejects that very text the layout
  fails, and when the parser accepts the texts of the list the first paragraph holds
  that text. So a display name that holds raw markup gives a banner title that holds raw
  markup, whereas the title and the published date of every entry behind the banner
  hold none.
\<close>

theorem banner_title_not_escaped:
  "title (hd (with_banner name es)) = ''Feed Source: '' @ name \<and>
   (\<forall>x. paragraph_parse w (''<b>Feed Source: '' @ name @ ''</b>'') title_style
          = Raised (Exception x) \<longrightarrow>
      save_as_pdf w (with_banner name es) directory =
        ([Stderr (''Failed to save PDF: '' @ x)], Returned None)) \<and>
   (list_all (accepts w) (with_banner name es) \<longrightarrow>
      (\<exists>rest. item_list_of w (with_banner name es) =
         ([], Returned (Paragraph (''<b>Feed Source: '' @ name @ ''</b>'') title_style # rest)))) \<and>
   (\<not> no_raw_markup name \<longrightarrow>
      \<not> no_raw_markup (title (hd (with_banner name (format_entries fd))))) \<and>
   (\<forall>e \<in> set (tl (with_banner name (format_entries fd))).
      no_raw_markup (title e) \<and> no_raw_markup (published e))"
proof -
  have a: "title (hd (with_banner name es)) = ''Feed Source: '' @ name" for es
    by (simp add: with_banner_Cons banner_def)
  have b: "save_as_pdf w (with_banner name es) directory =
        ([Stderr (''Failed to save PDF: '' @ x)], Returned None)"
    if "paragraph_parse w (''<b>Feed Source: '' @ name @ ''</b>'') title_style
          = Raised (Exception x)" for x
  proof -
    from that have "paragraph_parse w (''<b>'' @ title (banner name) @ ''</b>'') title_style
        = Raised (Exception x)"
      by (simp only: banner_title_text)
    then have "item_list_of w (banner name # es) = ([], Raised (Exception x))"
      by (rule item_list_of_first_raises)
    then show ?thesis
      by (simp add: prod_eq_iff fst_save_as_pdf snd_save_as_pdf with_banner_Cons)
  qed
  have c: "\<exists>rest. item_list_of w (with_banner name es) =
         ([], Returned (Paragraph (''<b>Feed Source: '' @ name @ ''</b>'') title_style # rest))"
    if "list_all (accepts w) (with_banner name es)"
  proof -
    have ne: "with_banner name es \<noteq> []" by (simp add: with_banner_Cons)
    from item_list_of_accepts [OF ne that] show ?thesis
      by (simp add: with_banner_Cons entry_items_def banner_def)
  qed
  have d: "\<not> no_raw_markup (title (hd (with_banner name (format_entries fd))))"
    if "\<not> no_raw_markup name"
    using that by (simp only: a no_raw_markup_banner_title not_False_eq_True)
  have e: "no_raw_markup (title e) \<and> no_raw_markup (published e)"
    if "e \<in> set (tl (with_banner name (format_entries fd)))" for e
    using that by (simp add: with_banner_Cons format_entries_no_raw_markup)
  from a b c d e show ?thesis by blast
qed

theorem banner_title_not_escaped_witness:
  "\<not> no_raw_markup ''A<B'' \<and>
   title (hd (with_banner ''A<B'' (format_entries (Some sample_feed)))) = ''Feed Source: A<B'' \<and>
   \<not> no_raw_markup (title (hd (with_banner ''A<B'' (format_entries (Some sample_feed))))) \<and>
   paragraph_parse world_bad_markup ''<b>Feed Source: A<B</b>'' title_style =
     Raised (Exception ''paragraph text caused exception'') \<and>
   save_as_pdf world_bad_markup (with_banner ''A<B'' (format_entries (Some sample_feed))) ''.'' =
     ([Stderr ''Failed to save PDF: paragraph text caused exception''], Returned None) \<and>
   list_all (accepts world_ok) (with_banner ''A <i>B</i>'' []) \<and>
   item_list_of world_ok (with_banner ''A <i>B</i>'' []) =
     ([], Returned [Paragraph ''<b>Feed Source: A <i>B</i></b>'' title_style,
                    Paragraph [] date_style, Paragraph [] summary_style, Spacer 1 6])"
proof -
  have h: "\<not> no_raw_markup ''A<B''" by simp
  have p: "paragraph_parse world_bad_markup ''<b>Feed Source: A<B</b>'' title_style =
     Raised (Exception ''paragraph text caused exception'')"
    by (simp add: world_bad_markup_def world_ok_def)
  have l: "list_all (accepts world_ok) (with_banner ''A <i>B</i>'' [])"
    by (simp add: with_banner_Cons accepts_def world_ok_def)
  from h p l
    banner_title_not_escaped [of "''A<B''" "format_entries (Some sample_feed)"
      world_bad_markup "''.''" "Some sample_feed"]
    banner_title_not_escaped [of "''A <i>B</i>''" "[]" world_ok "''.''" None]
  show ?thesis
    by (auto simp add: with_banner_Cons banner_def item_list_of_accepts entry_items_def)
qed

subsection \<open>One pass of the loop\<close>

lemma main_body_eq:
  "main_body w =
     io_bind (emit (Stdout (''Fetching from: '' @ snd (random_choice w FEED_SOURCES)
                            @ '' ('' @ fst (random_choice w FEED_SOURCES) @ '')''))) (\<lambda>_.
     io_bind (fetch_feed w (snd (random_choice w FEED_SOURCES))) (\<lambda>fd.
     io_bind (save_as_pdf w
                (with_banner (fst (random_choice w FEED_SOURCES)) (format_entries fd)) ''.'')
       (\<lambda>pdf_path.
     io_bind (print_and_cleanup w pdf_path) (\<lambda>_.
     io_bind (emit (Stdout (''Next run in '' @ str_nat INTERVAL_MINUTES @ '' minutes...'')))
       (\<lambda>_.
     call (Sleep (INTERVAL_MINUTES * 60)) (time_sleep w (INTERVAL_MINUTES * 60)))))))"
  by (simp add: main_body_def case_prod_beta)

lemma snd_fetch_feed_cycle:
  "feedparser_parse w (snd (random_choice w FEED_SOURCES)) \<noteq> Raised KeyboardInterrupt \<Longrightarrow>
   snd (fetch_feed w (snd (random_choice w FEED_SOURCES))) = Returned (cycle_feed w)"
  by (simp add: cycle_feed_def snd_fetch_feed split: outcome.splits exn.splits)

lemma main_body_runs_save:
  assumes "snd (fetch_feed w (snd (random_choice w FEED_SOURCES))) = Returned (cycle_feed w)"
  shows "\<exists>rest. fst (main_body w) =
           Stdout (''Fetching from: '' @ snd (random_choice w FEED_SOURCES)
                   @ '' ('' @ fst (random_choice w FEED_SOURCES) @ '')'') #
           fst (fetch_feed w (snd (random_choice w FEED_SOURCES))) @
           fst (save_as_pdf w (cycle_entries w) ''.'') @ rest"
  using assms
  by (simp add: main_body_eq fst_io_bind snd_io_bind io_simps cycle_entries_def)

lemma cycle_entries_not_Nil: "cycle_entries w \<noteq> []"
  by (simp add: cycle_entries_def with_banner_Cons)

lemma main_body_reaches_build:
  assumes "snd (fetch_feed w (snd (random_choice w FEED_SOURCES))) = Returned (cycle_feed w)"
    and "list_all (accepts w) (cycle_entries w)"
  shows "Build (built_doc w ''.'') (built_elements w (concat (map entry_items (cycle_entries w))))
           \<in> set (fst (main_body w))"
proof -
  from item_list_of_accepts [OF cycle_entries_not_Nil assms(2)]
  have "Build (built_doc w ''.'') (built_elements w (concat (map entry_items (cycle_entries w))))
          \<in> set (fst (save_as_pdf w (cycle_entries w) ''.''))"
    by (simp add: fst_save_as_pdf)
  with main_body_runs_save [OF assms(1)] show ?thesis by auto
qed

text \<open>
  Claim C6. In a pass whose fetch is not interrupted, the entries that \<open>main\<close> gives to
  \<open>save_as_pdf\<close> are the banner entry, with the title \<open>Feed Source: \<close> and the display
  name of the chosen source and with an empty published date and summary, followed by
  the normalised entries of the fetched feed in their order, whether or not there are
  any. The pass runs \<open>save_as_pdf\<close> on exactly this list right after the fetch, and when
  the parser accepts its texts, the frame built from it, banner items first, is given to
  the document builder.
\<close>

theorem banner_always_first:
  "feedparser_parse w (snd (random_choice w FEED_SOURCES)) \<noteq> Raised KeyboardInterrupt \<Longrightarrow>
   cycle_entries w =
     \<lparr>title = ''Feed Source: '' @ fst (random_choice w FEED_SOURCES),
      published = [], summary = []\<rparr> # format_entries (cycle_feed w) \<and>
   snd (fetch_feed w (snd (random_choice w FEED_SOURCES))) = Returned (cycle_feed w) \<and>
   (\<exists>rest. fst (main_body w) =
      Stdout (''Fetching from: '' @ snd (random_choice w FEED_SOURCES)
              @ '' ('' @ fst (random_choice w FEED_SOURCES) @ '')'') #
      fst (fetch_feed w (snd (random_choice w FEED_SOURCES))) @
      fst (save_as_pdf w (cycle_entries w) ''.'') @ rest) \<and>
   (list_all (accepts w) (cycle_entries w) \<longrightarrow>
      Build (built_doc w ''.'') (built_elements w (concat (map entry_items (cycle_entries w))))
        \<in> set (fst (main_body w)))"
proof -
  assume ni: "feedparser_parse w (snd (random_choice w FEED_SOURCES)) \<noteq> Raised KeyboardInterrupt"
  have a: "cycle_entries w =
     \<lparr>title = ''Feed Source: '' @ fst (random_choice w FEED_SOURCES),
      published = [], summary = []\<rparr> # format_entries (cycle_feed w)"
    by (simp add: cycle_entries_def with_banner_Cons banner_def)
  note b = snd_fetch_feed_cycle [OF ni]
  note c = main_body_runs_save [OF b]
  note d = main_body_reaches_build [OF b]
  from a b c d show ?thesis by blast
qed

theorem banner_always_first_witness:
  "feedparser_parse world_fetch_fails (snd (random_choice world_fetch_fails FEED_SOURCES))
     \<noteq> Raised KeyboardInterrupt \<and>
   cycle_entries world_fetch_fails =
     [\<lparr>title = ''Feed Source: Guardian World'', published = [], summary = []\<rparr>] \<and>
   feedparser_parse world_ok (snd (random_choice world_ok FEED_SOURCES))
     \<noteq> Raised KeyboardInterrupt \<and>
   cycle_entries world_ok =
     [\<lparr>title = ''Feed Source: Guardian World'', published = [], summary = []\<rparr>,
      \<lparr>title = ''A &lt;b&gt; &amp; C'', published = ''Mon'', summary = ''<i>S1</i>''\<rparr>,
      \<lparr>title = ''No title'', published = ''No date'', summary = []\<rparr>] \<and>
   list_all (accepts world_ok) (cycle_entries world_ok) \<and>
   Build (built_doc world_ok ''.'')
     (built_elements world_ok (concat (map entry_items (cycle_entries world_ok))))
     \<in> set (fst (main_body world_ok))"
proof -
  have c: "random_choice world_fetch_fails FEED_SOURCES =
      (''Guardian World'', ''https://www.theguardian.com/world/rss'')"
    "random_choice world_ok FEED_SOURCES =
      (''Guardian World'', ''https://www.theguardian.com/world/rss'')"
    by (simp_all add: random_choice_def FEED_SOURCES_def world_fetch_fails_def world_ok_def)
  have h1: "feedparser_parse world_fetch_fails (snd (random_choice world_fetch_fails FEED_SOURCES))
     \<noteq> Raised KeyboardInterrupt"
    by (simp add: world_fetch_fails_def world_ok_def)
  have h2: "feedparser_parse world_ok (snd (random_choice world_ok FEED_SOURCES))
     \<noteq> Raised KeyboardInterrupt"
    by (simp add: world_ok_def)
  have h3: "list_all (accepts world_ok) (cycle_entries world_ok)"
    by (simp add: list_all_iff accepts_def world_ok_def)
  have f1: "cycle_feed world_fetch_fails = None"
    by (simp add: cycle_feed_def snd_fetch_feed world_fetch_fails_def world_ok_def)
  have f2: "cycle_feed world_ok = Some sample_feed"
    by (simp add: cycle_feed_def snd_fetch_feed world_ok_def sample_feed_def)
  have e2: "format_entries (Some sample_feed) =
     [\<lparr>title = ''A &lt;b&gt; &amp; C'', published = ''Mon'', summary = ''<i>S1</i>''\<rparr>,
      \<lparr>title = ''No title'', published = ''No date'', summary = []\<rparr>]"
    by (simp add: format_entries_def sample_feed_def format_entry_def dict_get_def
        html_escape_concat escape_char_def)
  have e1: "format_entries None = []"
    by (simp add: format_entries_def)
  from banner_always_first [OF h1] have r1: "cycle_entries world_fetch_fails =
     [\<lparr>title = ''Feed Source: Guardian World'', published = [], summary = []\<rparr>]"
    by (simp add: c f1 e1)
  from banner_always_first [OF h2] have r2: "cycle_entries world_ok =
     [\<lparr>title = ''Feed Source: Guardian World'', published = [], summary = []\<rparr>,
      \<lparr>title = ''A &lt;b&gt; &amp; C'', published = ''Mon'', summary = ''<i>S1</i>''\<rparr>,
      \<lparr>title = ''No title'', published = ''No date'', summary = []\<rparr>]"
    by (simp add: c f2 e2)
  from banner_always_first [OF h2] h3 have r3: "Build (built_doc world_ok ''.'')
     (built_elements world_ok (concat (map entry_items (cycle_entries world_ok))))
     \<in> set (fst (main_body world_ok))"
    by blast
  from h1 h2 h3 r1 r2 r3 show ?thesis by blast
qed


subsection \<open>The loop\<close>

lemma print_and_cleanup_None: "print_and_cleanup w None = ([], Returned ())"
  by (simp add: print_and_cleanup_def ret_def)

lemma snd_print_and_cleanup:
  "uninterrupted w \<Longrightarrow> snd (print_and_cleanup w pdf_path) = Returned ()"
  by (simp add: print_and_cleanup_def uninterrupted_def snd_io_bind snd_try_except io_simps
      snd_print_to_printer KEEP_PDF_def
      split: option.splits outcome.splits exn.splits)

lemma no_Sleep_fetch_feed: "filter is_Sleep (fst (fetch_feed w url)) = []"
  by (simp add: fst_fetch_feed split: outcome.splits exn.splits)

lemma no_Sleep_save_as_pdf: "filter is_Sleep (fst (save_as_pdf w es directory)) = []"
  by (simp add: fst_save_as_pdf split: outcome.splits exn.splits)

lemma no_Sleep_print_and_cleanup: "filter is_Sleep (fst (print_and_cleanup w pdf_path)) = []"
  by (simp add: print_and_cleanup_def fst_io_bind fst_try_except snd_io_bind io_simps
      fst_print_to_printer
      split: option.splits outcome.splits exn.splits)

lemma no_Run_fetch_feed: "filter is_Run (fst (fetch_feed w url)) = []"
  by (simp add: fst_fetch_feed split: outcome.splits exn.splits)

lemma no_Run_save_as_pdf: "filter is_Run (fst (save_as_pdf w es directory)) = []"
  by (simp add: fst_save_as_pdf split: outcome.splits exn.splits)

lemma save_as_pdf_returns:
  assumes u: "uninterrupted w"
  shows "\<exists>p. snd (save_as_pdf w es directory) = Returned p"
proof (cases "snd (item_list_of w es)")
  case (Returned item_list)
  from u have nb: "doc_build w (built_doc w directory) (built_elements w item_list)
      \<noteq> Raised KeyboardInterrupt"
    by (simp add: uninterrupted_def)
  show ?thesis
  proof (cases "doc_build w (built_doc w directory) (built_elements w item_list)")
    case (Returned v)
    with \<open>snd (item_list_of w es) = Returned item_list\<close> show ?thesis
      by (simp add: snd_save_as_pdf)
  next
    case (Raised x)
    with nb \<open>snd (item_list_of w es) = Returned item_list\<close> show ?thesis
      by (cases x) (simp_all add: snd_save_as_pdf)
  qed
next
  case (Raised x)
  from u have "snd (item_list_of w es) \<noteq> Raised KeyboardInterrupt"
    by (intro item_list_of_no_interrupt) (simp add: uninterrupted_def)
  with Raised show ?thesis
    by (cases x) (simp_all add: snd_save_as_pdf)
qed

lemma save_as_pdf_succeeds:
  assumes "es \<noteq> []" and "list_all (accepts w) es"
    and "\<forall>d els. doc_build w d els = Returned ()"
  shows "snd (save_as_pdf w es directory) = Returned (Some (pdf_filename w directory))"
  using assms(3) by (simp add: snd_save_as_pdf item_list_of_accepts [OF assms(1,2)])

lemma main_body_uninterrupted:
  assumes u: "uninterrupted w"
  shows "\<exists>p. snd (save_as_pdf w (cycle_entries w) ''.'') = Returned p \<and>
             main_body w =
               (Stdout (''Fetching from: '' @ snd (random_choice w FEED_SOURCES)
                        @ '' ('' @ fst (random_choice w FEED_SOURCES) @ '')'') #
                fst (fetch_feed w (snd (random_choice w FEED_SOURCES))) @
                fst (save_as_pdf w (cycle_entries w) ''.'') @
                fst (print_and_cleanup w p) @
                [Stdout (''Next run in '' @ str_nat INTERVAL_MINUTES @ '' minutes...''),
                 Sleep (INTERVAL_MINUTES * 60)],
                Returned ())"
proof -
  from u have f: "snd (fetch_feed w (snd (random_choice w FEED_SOURCES))) = Returned (cycle_feed w)"
    by (simp add: snd_fetch_feed_cycle uninterrupted_def)
  from u have "\<exists>p. snd (save_as_pdf w (cycle_entries w) ''.'') = Returned p"
    by (rule save_as_pdf_returns)
  then obtain p where s: "snd (save_as_pdf w (cycle_entries w) ''.'') = Returned p" ..
  from u have c: "snd (print_and_cleanup w p) = Returned ()"
    by (rule snd_print_and_cleanup)
  from u have t: "time_sleep w (INTERVAL_MINUTES * 60) = Returned ()"
    by (simp add: uninterrupted_def)
  have "main_body w =
               (Stdout (''Fetching from: '' @ snd (random_choice w FEED_SOURCES)
                        @ '' ('' @ fst (random_choice w FEED_SOURCES) @ '')'') #
                fst (fetch_feed w (snd (random_choice w FEED_SOURCES))) @
                fst (save_as_pdf w (cycle_entries w) ''.'') @
                fst (print_and_cleanup w p) @
                [Stdout (''Next run in '' @ str_nat INTERVAL_MINUTES @ '' minutes...''),
                 Sleep (INTERVAL_MINUTES * 60)],
                Returned ())"
    using f s c t
    by (simp add: prod_eq_iff main_body_eq fst_io_bind snd_io_bind io_simps
        cycle_entries_def [symmetric])
  with s show ?thesis by blast
qed

lemma main_body_returns: "uninterrupted w \<Longrightarrow> snd (main_body w) = Returned ()"
  using main_body_uninterrupted [of w] by auto

lemma main_body_one_Sleep:
  "uninterrupted w \<Longrightarrow> filter is_Sleep (fst (main_body w)) = [Sleep (INTERVAL_MINUTES * 60)]"
  using main_body_uninterrupted [of w]
  by (auto simp add: no_Sleep_fetch_feed no_Sleep_save_as_pdf no_Sleep_print_and_cleanup)

lemma main_body_ends_with_Sleep:
  "uninterrupted w \<Longrightarrow> last (fst (main_body w)) = Sleep (INTERVAL_MINUTES * 60)"
  using main_body_uninterrupted [of w] by auto

lemma main_body_no_Run:
  assumes "uninterrupted w" and "snd (save_as_pdf w (cycle_entries w) ''.'') = Returned None"
  shows "filter is_Run (fst (main_body w)) = []"
  using main_body_uninterrupted [OF assms(1)] assms(2)
  by (auto simp add: no_Run_fetch_feed no_Run_save_as_pdf print_and_cleanup_None)

lemma main_loop_runs_on:
  "(\<forall>i. uninterrupted (ws i)) \<Longrightarrow>
   snd (main_loop ws i n) = None \<and> length (filter is_Sleep (fst (main_loop ws i n))) = n"
proof (induction n arbitrary: i)
  case 0
  show ?case by simp
next
  case (Suc n)
  from Suc.prems have u: "uninterrupted (ws i)" by simp
  obtain ev where b: "main_body (ws i) = (ev, Returned ())"
    using main_body_returns [OF u] by (cases "main_body (ws i)") simp
  from main_body_one_Sleep [OF u] b
  have one: "filter is_Sleep ev = [Sleep (INTERVAL_MINUTES * 60)]" by simp
  from Suc.IH [OF Suc.prems, of "Suc i"] b one show ?case
    by (simp add: case_prod_beta)
qed

text \<open>
  The interrupt from the keyboard is what does leave the loop: no handler inside \<open>main\<close>
  catches it.
\<close>

lemma interrupt_leaves_loop:
  "snd (main (\<lambda>i. world_interrupted) (Suc n)) = Some KeyboardInterrupt"
proof -
  have acc: "list_all (accepts world_interrupted) es" for es
    by (simp add: list_all_iff accepts_def world_interrupted_def world_ok_def)
  have ne: "with_banner name es \<noteq> []" for name es
    by (simp add: with_banner_Cons)
  have db: "\<forall>d els. doc_build world_interrupted d els = Returned ()"
    by (simp add: world_interrupted_def world_ok_def)
  have sv: "snd (save_as_pdf world_interrupted (with_banner name es) ''.'') =
      Returned (Some (pdf_filename world_interrupted ''.''))" for name es
    by (rule save_as_pdf_succeeds [OF ne acc db])
  have f: "snd (fetch_feed world_interrupted url) = Returned (Some sample_feed)" for url
    by (simp add: snd_fetch_feed world_interrupted_def world_ok_def sample_feed_def)
  have pc: "snd (print_and_cleanup world_interrupted p) = Returned ()" for p
    by (simp add: print_and_cleanup_def snd_io_bind snd_try_except io_simps
        snd_print_to_printer KEEP_PDF_def world_interrupted_def world_ok_def
        split: option.splits)
  have t: "time_sleep world_interrupted k = Raised KeyboardInterrupt" for k
    by (simp add: world_interrupted_def)
  have "snd (main_body world_interrupted) = Raised KeyboardInterrupt"
    by (simp add: main_body_eq snd_io_bind io_simps f sv pc t)
  then show ?thesis
    by (cases "main_body world_interrupted") (simp add: main_def case_prod_beta)
qed

text \<open>
  A pass over a feed whose summary the parser rejects: no document is built, \<open>lpr\<close> is
  not run, and the pass ends with the sleep.
\<close>

lemma cycle_entries_bad_markup:
  "cycle_entries world_bad_markup = with_banner ''Guardian World'' [bad_entry]"
proof -
  have c: "random_choice world_bad_markup FEED_SOURCES =
      (''Guardian World'', ''https://www.theguardian.com/world/rss'')"
    by (simp add: random_choice_def FEED_SOURCES_def world_bad_markup_def world_ok_def)
  have f: "cycle_feed world_bad_markup = Some bad_feed"
    by (simp add: cycle_feed_def snd_fetch_feed world_bad_markup_def world_ok_def bad_feed_def)
  have e: "format_entries (Some bad_feed) = [bad_entry]"
    by (simp add: format_entries_def bad_feed_def format_entry_def dict_get_def bad_entry_def
        html_escape_concat escape_char_def)
  show ?thesis
    by (simp add: cycle_entries_def c f e)
qed

lemma save_as_pdf_bad_markup:
  "save_as_pdf world_bad_markup (with_banner ''Guardian World'' [bad_entry]) ''.'' =
     ([Stderr ''Failed to save PDF: paragraph text caused exception''], Returned None)"
proof -
  have i: "item_list_of world_bad_markup (with_banner ''Guardian World'' [bad_entry]) =
      ([], Raised (Exception ''paragraph text caused exception''))"
    by (simp add: item_list_of_def add_entry_def new_Paragraph_def io_bind_def ret_def
        with_banner_Cons banner_def world_bad_markup_def world_ok_def bad_entry_def)
  show ?thesis
    by (simp add: prod_eq_iff fst_save_as_pdf snd_save_as_pdf i)
qed

lemma pass_with_rejected_markup:
  "main_body world_bad_markup =
     ([Stdout ''Fetching from: https://www.theguardian.com/world/rss (Guardian World)'',
       Parse ''https://www.theguardian.com/world/rss'',
       Stderr ''Failed to save PDF: paragraph text caused exception'',
       Stdout (''Next run in '' @ str_nat INTERVAL_MINUTES @ '' minutes...''),
       Sleep (INTERVAL_MINUTES * 60)],
      Returned ())"
proof -
  have c: "random_choice world_bad_markup FEED_SOURCES =
      (''Guardian World'', ''https://www.theguardian.com/world/rss'')"
    by (simp add: random_choice_def FEED_SOURCES_def world_bad_markup_def world_ok_def)
  have f: "fetch_feed world_bad_markup ''https://www.theguardian.com/world/rss'' =
      ([Parse ''https://www.theguardian.com/world/rss''], Returned (Some bad_feed))"
    by (simp add: prod_eq_iff fst_fetch_feed snd_fetch_feed world_bad_markup_def world_ok_def
        bad_feed_def)
  have e: "format_entries (Some bad_feed) = [bad_entry]"
    by (simp add: format_entries_def bad_feed_def format_entry_def dict_get_def bad_entry_def
        html_escape_concat escape_char_def)
  note s = save_as_pdf_bad_markup
  have t: "time_sleep world_bad_markup n = Returned ()" for n
    by (simp add: world_bad_markup_def world_ok_def)
  show ?thesis
    by (simp add: main_body_eq c f e s t print_and_cleanup_None io_bind_def emit_def call_def)
qed

text \<open>
  Claim C9. Suppose that in every pass whatever the libraries raise is an error (no
  interrupt from the keyboard) and the sleep runs to its end. Then after any number \<open>n\<close>
  of passes the loop has not been left and has reached its sleep \<open>n\<close> times.
  \<open>save_as_pdf\<close> raises nothing: an error of the paragraph parser is caught before any
  document is built, an error of \<open>doc.build\<close> is caught after its call, and in both cases
  \<open>Failed to save PDF:\<close> and the cause go to stderr and the result is \<open>None\<close>. In a pass
  where \<open>save_as_pdf\<close> returns \<open>None\<close>, \<open>lpr\<close> is not run, and the pass still ends normally
  with the sleep.
\<close>

theorem errors_never_stop_the_loop:
  assumes "\<forall>i. uninterrupted (ws i)"
  shows "snd (main ws n) = None \<and>
         length (filter is_Sleep (fst (main ws n))) = n \<and>
         (\<forall>i es directory. \<exists>p. snd (save_as_pdf (ws i) es directory) = Returned p) \<and>
         (\<forall>i es directory e.
            snd (item_list_of (ws i) es) = Raised (Exception e) \<longrightarrow>
            save_as_pdf (ws i) es directory =
              ([Stderr (''Failed to save PDF: '' @ e)], Returned None)) \<and>
         (\<forall>i es directory item_list e.
            snd (item_list_of (ws i) es) = Returned item_list \<and>
            doc_build (ws i) (built_doc (ws i) directory) (built_elements (ws i) item_list)
              = Raised (Exception e) \<longrightarrow>
            save_as_pdf (ws i) es directory =
              ([Build (built_doc (ws i) directory) (built_elements (ws i) item_list),
                Stderr (''Failed to save PDF: '' @ e)], Returned None)) \<and>
         (\<forall>i. snd (save_as_pdf (ws i) (cycle_entries (ws i)) ''.'') = Returned None \<longrightarrow>
            filter is_Run (fst (main_body (ws i))) = [] \<and>
            snd (main_body (ws i)) = Returned () \<and>
            last (fst (main_body (ws i))) = Sleep (INTERVAL_MINUTES * 60))"
proof -
  from main_loop_runs_on [OF assms, of 0 n]
  have a: "snd (main ws n) = None" and b: "length (filter is_Sleep (fst (main ws n))) = n"
    by (simp_all add: main_def case_prod_beta)
  have c0: "\<exists>p. snd (save_as_pdf (ws i) es directory) = Returned p" for i es directory
    using assms by (intro save_as_pdf_returns) simp
  have c1: "save_as_pdf (ws i) es directory =
              ([Stderr (''Failed to save PDF: '' @ e)], Returned None)"
    if "snd (item_list_of (ws i) es) = Raised (Exception e)" for i es directory e
    using that by (simp add: prod_eq_iff fst_save_as_pdf snd_save_as_pdf)
  have c2: "save_as_pdf (ws i) es directory =
              ([Build (built_doc (ws i) directory) (built_elements (ws i) item_list),
                Stderr (''Failed to save PDF: '' @ e)], Returned None)"
    if "snd (item_list_of (ws i) es) = Returned item_list \<and>
        doc_build (ws i) (built_doc (ws i) directory) (built_elements (ws i) item_list)
              = Raised (Exception e)" for i es directory item_list e
    using that by (simp add: prod_eq_iff fst_save_as_pdf snd_save_as_pdf)
  have d: "filter is_Run (fst (main_body (ws i))) = [] \<and>
            snd (main_body (ws i)) = Returned () \<and>
            last (fst (main_body (ws i))) = Sleep (INTERVAL_MINUTES * 60)"
    if "snd (save_as_pdf (ws i) (cycle_entries (ws i)) ''.'') = Returned None" for i
  proof -
    from assms have u: "uninterrupted (ws i)" by simp
    from main_body_no_Run [OF u that] main_body_returns [OF u] main_body_ends_with_Sleep [OF u]
    show ?thesis by simp
  qed
  from a b c0 c1 c2 d show ?thesis by blast
qed

theorem errors_never_stop_the_loop_witness:
  "uninterrupted world_bad_markup \<and>
   snd (main (\<lambda>i. world_bad_markup) 3) = None \<and>
   length (filter is_Sleep (fst (main (\<lambda>i. world_bad_markup) 3))) = 3 \<and>
   snd (item_list_of world_bad_markup [bad_entry]) =
     Raised (Exception ''paragraph text caused exception'') \<and>
   save_as_pdf world_bad_markup [bad_entry] ''.'' =
     ([Stderr ''Failed to save PDF: paragraph text caused exception''], Returned None) \<and>
   snd (save_as_pdf world_bad_markup (cycle_entries world_bad_markup) ''.'') = Returned None \<and>
   filter is_Run (fst (main_body world_bad_markup)) = [] \<and>
   uninterrupted world_build_fails \<and>
   snd (item_list_of world_build_fails []) =
     Returned [Paragraph ''No entries found.'' styles_Normal] \<and>
   doc_build world_build_fails (built_doc world_build_fails ''.'')
     (built_elements world_build_fails [Paragraph ''No entries found.'' styles_Normal]) =
     Raised (Exception ''Permission denied'') \<and>
   save_as_pdf world_build_fails [] ''.'' =
     ([Build (built_doc world_build_fails ''.'')
         (built_elements world_build_fails [Paragraph ''No entries found.'' styles_Normal]),
       Stderr ''Failed to save PDF: Permission denied''], Returned None)"
proof -
  have u1: "uninterrupted world_bad_markup"
    by (simp add: uninterrupted_def world_bad_markup_def world_ok_def)
  then have h1: "\<forall>i. uninterrupted ((\<lambda>i. world_bad_markup) i)" by simp
  have u2: "uninterrupted world_build_fails"
    by (simp add: uninterrupted_def world_build_fails_def world_ok_def)
  then have h2: "\<forall>i. uninterrupted ((\<lambda>i. world_build_fails) i)" by simp
  have i1: "snd (item_list_of world_bad_markup [bad_entry]) =
     Raised (Exception ''paragraph text caused exception'')"
    by (simp add: item_list_of_def add_entry_def new_Paragraph_def io_bind_def ret_def
        world_bad_markup_def world_ok_def bad_entry_def)
  have s1: "snd (save_as_pdf world_bad_markup (cycle_entries world_bad_markup) ''.'')
      = Returned None"
    by (simp add: cycle_entries_bad_markup save_as_pdf_bad_markup)
  have i2: "snd (item_list_of world_build_fails []) =
     Returned [Paragraph ''No entries found.'' styles_Normal]"
    by (simp add: item_list_of_Nil)
  have b2: "doc_build world_build_fails (built_doc world_build_fails ''.'')
     (built_elements world_build_fails [Paragraph ''No entries found.'' styles_Normal]) =
     Raised (Exception ''Permission denied'')"
    by (simp add: world_build_fails_def)
  note t1 = errors_never_stop_the_loop [OF h1, of 3]
  note t2 = errors_never_stop_the_loop [OF h2, of 0]
  note t1' = t1 [THEN conjunct2, THEN conjunct2, THEN conjunct2]
  note t2' = t2 [THEN conjunct2, THEN conjunct2, THEN conjunct2, THEN conjunct2]
  have r0: "snd (main (\<lambda>i. world_bad_markup) 3) = None"
    "length (filter is_Sleep (fst (main (\<lambda>i. world_bad_markup) 3))) = 3"
    by (rule t1 [THEN conjunct1], rule t1 [THEN conjunct2, THEN conjunct1])
  have r1: "save_as_pdf world_bad_markup [bad_entry] ''.'' =
     ([Stderr ''Failed to save PDF: paragraph text caused exception''], Returned None)"
    using t1' [THEN conjunct1, rule_format, OF i1, of "''.''"] by simp
  from t1' [THEN conjunct2, THEN conjunct2, rule_format, OF s1]
  have r2: "filter is_Run (fst (main_body world_bad_markup)) = []"
    by (rule conjunct1)
  have r3: "save_as_pdf world_build_fails [] ''.'' =
     ([Build (built_doc world_build_fails ''.'')
         (built_elements world_build_fails [Paragraph ''No entries found.'' styles_Normal]),
       Stderr ''Failed to save PDF: Permission denied''], Returned None)"
    using t2' [THEN conjunct1, rule_format, OF conjI [OF i2 b2]] by simp
  from u1 u2 i1 s1 i2 b2 r0 r1 r2 r3 show ?thesis by blast
qed

end
